theory Spec2Isabelle
  imports Main "HOL-Library.AList"
begin

section \<open>Data types (\<^verbatim>\<open>data_types.py\<close>)\<close>

datatype ModelState =
  UNKNOWN | PENDING | ACCEPTED | QUEUED | READY | RUNNING | SUCCEEDED | ERROR

record OperaAdapterConfig =
  input_esdl_file_path_1 :: "string option"
  input_esdl_file_path_2 :: "string option"
  output_esdl_file_path :: "string option"
  base_path :: "string option"

text \<open>
  The values that flow through \<^verbatim>\<open>process_results\<close> and into the result dictionary:
  \<^verbatim>\<open>None\<close> or a \<^verbatim>\<open>str\<close>. A truthy processed result is handed to
  \<^verbatim>\<open>bytes(res, 'utf8')\<close> or \<^verbatim>\<open>file.write(res)\<close>, so it is a string.
\<close>

datatype pyval = PNone | PStr string

text \<open>A Python \<^verbatim>\<open>dict\<close> keeps insertion order: an association list.\<close>

type_synonym pydict = "(string \<times> pyval) list"

record ModelRun =
  state :: ModelState
  config :: "OperaAdapterConfig option"
  result :: "pydict option"

text \<open>
  \<^verbatim>\<open>ModelRunInfo\<close>; its fields \<^verbatim>\<open>state\<close> and \<^verbatim>\<open>result\<close> are
  \<open>info_state\<close> and \<open>info_result\<close> here, since \<open>ModelRun\<close> has fields of the same name.
\<close>

record ModelRunInfo =
  model_run_id :: string
  info_state :: ModelState
  info_result :: "pydict option"
  reason :: "string option"

section \<open>The environment: exceptions, object store, local files\<close>

datatype pyerror = IOError string | AttributeError | TypeError

text \<open>
  The Minio object store as the adapter uses it: a list of buckets and the objects put
  so far, keyed by bucket and object name.
\<close>

record MinioStore =
  buckets :: "string list"
  objects :: "((string \<times> string) \<times> string) list"

definition bucket_exists :: "MinioStore \<Rightarrow> string \<Rightarrow> bool" where
  "bucket_exists mc bucket = (bucket \<in> set (buckets mc))"

definition make_bucket :: "MinioStore \<Rightarrow> string \<Rightarrow> MinioStore" where
  "make_bucket mc bucket = mc\<lparr>buckets := buckets mc @ [bucket]\<rparr>"

definition put_object :: "MinioStore \<Rightarrow> string \<Rightarrow> string \<Rightarrow> string \<Rightarrow> MinioStore" where
  "put_object mc bucket name content =
     mc\<lparr>objects := AList.update (bucket, name) content (objects mc)\<rparr>"

text \<open>\<^verbatim>\<open>path.split("/")\<close> and \<^verbatim>\<open>"/".join(parts)\<close>.\<close>

fun split_slash :: "string \<Rightarrow> string list" where
  "split_slash [] = [[]]"
| "split_slash (c # cs) =
     (if c = CHR ''/'' then [] # split_slash cs
      else (c # hd (split_slash cs)) # tl (split_slash cs))"

fun join_slash :: "string list \<Rightarrow> string" where
  "join_slash [] = []"
| "join_slash [w] = w"
| "join_slash (w # v # ws) = w @ CHR ''/'' # join_slash (v # ws)"

text \<open>
  \<^verbatim>\<open>bytes(res, 'utf8')\<close> and \<^verbatim>\<open>file.write(res)\<close> accept a string only. The content is
  kept as the text itself.
\<close>

definition str_content :: "pyval \<Rightarrow> pyerror + string" where
  "str_content v = (case v of PStr s \<Rightarrow> Inr s | PNone \<Rightarrow> Inl TypeError)"

text \<open>Python truthiness of \<^verbatim>\<open>res\<close> in \<^verbatim>\<open>if res:\<close>.\<close>

definition truthy :: "pyval \<Rightarrow> bool" where
  "truthy v = (case v of PNone \<Rightarrow> False | PStr s \<Rightarrow> s \<noteq> [])"

section \<open>The model (\<^verbatim>\<open>model.py\<close>)\<close>

text \<open>
  The state of a \<^verbatim>\<open>Model\<close> object: the run dictionary (insertion ordered, as Python's
  \<^verbatim>\<open>dict\<close>), the Minio client (\<open>None\<close> when no endpoint is configured), and the local
  files written through \<^verbatim>\<open>open(filename, 'w')\<close>, by file name.
\<close>

record Model =
  model_run_dict :: "(string \<times> ModelRun) list"
  minio_client :: "MinioStore option"
  disk :: "(string \<times> string) list"

definition Model_init :: "MinioStore option \<Rightarrow> (string \<times> string) list \<Rightarrow> Model" where
  "Model_init mc files = \<lparr>model_run_dict = [], minio_client = mc, disk = files\<rparr>"

text \<open>
  \<^verbatim>\<open>request\<close>: the argument \<open>uuid\<close> is the value of \<^verbatim>\<open>str(uuid4())\<close> drawn by the call.
  The assignment \<^verbatim>\<open>self.model_run_dict[model_run_id] = ModelRun(...)\<close> overwrites an
  entry of the same key in place and appends otherwise, as \<open>AList.update\<close> does.
\<close>

definition request :: "string \<Rightarrow> Model \<Rightarrow> ModelRunInfo \<times> Model" where
  "request uuid self =
     (let r = \<lparr>state = ACCEPTED, config = None, result = None\<rparr>
      in (\<lparr>model_run_id = uuid, info_state = state r, info_result = None, reason = None\<rparr>,
          self\<lparr>model_run_dict := AList.update uuid r (model_run_dict self)\<rparr>))"

definition initialize ::
  "string \<Rightarrow> OperaAdapterConfig option \<Rightarrow> Model \<Rightarrow> ModelRunInfo \<times> Model" where
  "initialize run_id cfg self =
     (case map_of (model_run_dict self) run_id of
        Some r \<Rightarrow>
          (let r1 = r\<lparr>config := cfg\<rparr>;
               r2 = r1\<lparr>state := READY\<rparr>
           in (\<lparr>model_run_id = run_id, info_state = state r2, info_result = None,
                reason = None\<rparr>,
               self\<lparr>model_run_dict := AList.update run_id r2 (model_run_dict self)\<rparr>))
      | None \<Rightarrow>
          (\<lparr>model_run_id = run_id, info_state = ERROR, info_result = None,
            reason = Some ''Error in Model.initialize(): model_run_id unknown''\<rparr>, self))"

text \<open>
  \<^verbatim>\<open>store_result\<close>; \<open>process_results\<close> is the abstract method a subclass supplies.
  An exception leaves the state as it is when it is raised.
\<close>

definition store_result ::
  "(pyval \<Rightarrow> pyval) \<Rightarrow> string \<Rightarrow> pyval \<Rightarrow> Model \<Rightarrow> (pyerror + ModelRunInfo) \<times> Model" where
  "store_result process_results run_id raw self =
     (case map_of (model_run_dict self) run_id of
        Some r \<Rightarrow>
          (let res = process_results raw;
               succeeded = \<lparr>model_run_id = run_id, info_state = SUCCEEDED,
                             info_result = None, reason = None\<rparr>
           in if truthy res then
                (case config r of
                   None \<Rightarrow> (Inl AttributeError, self)
                 | Some c \<Rightarrow>
                     (let path = output_esdl_file_path c
                      in case minio_client self of
                           Some mc \<Rightarrow>
                             (case str_content res of
                                Inl e \<Rightarrow> (Inl e, self)
                              | Inr content \<Rightarrow>
                                  (case path of
                                     None \<Rightarrow> (Inl AttributeError, self)
                                   | Some p \<Rightarrow>
                                       (let bucket = hd (split_slash p);
                                            rest_of_path = join_slash (tl (split_slash p));
                                            mc1 = (if \<not> bucket_exists mc bucket
                                                   then make_bucket mc bucket else mc);
                                            mc2 = put_object mc1 bucket rest_of_path content
                                        in (Inr succeeded,
                                            self\<lparr>minio_client := Some mc2,
                                                 model_run_dict :=
                                                   AList.update run_id
                                                     (r\<lparr>result := Some [(''path'', PStr p)]\<rparr>)
                                                     (model_run_dict self)\<rparr>))))
                         | None \<Rightarrow>
                             (case path of
                                None \<Rightarrow> (Inl TypeError, self)
                              | Some p \<Rightarrow>
                                  if take 7 p = ''file://'' then
                                    (let filename = drop 7 p
                                     in case str_content res of
                                          Inl e \<Rightarrow> (Inl e, self)
                                        | Inr content \<Rightarrow>
                                            (Inr succeeded,
                                             self\<lparr>disk := AList.update filename content (disk self),
                                                  model_run_dict :=
                                                    AList.update run_id
                                                      (r\<lparr>result := Some [(''path'', PStr p)]\<rparr>)
                                                      (model_run_dict self)\<rparr>))
                                  else
                                    (Inl (IOError (''Don't know how to write file '' @ p)),
                                     self))))
              else
                (Inr succeeded,
                 self\<lparr>model_run_dict :=
                        AList.update run_id (r\<lparr>result := Some [(''result'', res)]\<rparr>)
                          (model_run_dict self)\<rparr>))
      | None \<Rightarrow>
          (Inr \<lparr>model_run_id = run_id, info_state = ERROR, info_result = None,
                reason = Some ''Error in Model.store_result(): model_run_id unknown''\<rparr>,
           self))"

definition run :: "string \<Rightarrow> Model \<Rightarrow> ModelRunInfo \<times> Model" where
  "run run_id self =
     (case map_of (model_run_dict self) run_id of
        Some r \<Rightarrow>
          if state r \<noteq> READY then
            (\<lparr>model_run_id = run_id, info_state = state r, info_result = None,
              reason = Some ''Error: Model is not in READY state''\<rparr>, self)
          else
            (let r1 = r\<lparr>state := RUNNING\<rparr>
             in (\<lparr>model_run_id = run_id, info_state = state r1, info_result = None,
                  reason = None\<rparr>,
                 self\<lparr>model_run_dict := AList.update run_id r1 (model_run_dict self)\<rparr>))
      | None \<Rightarrow>
          (\<lparr>model_run_id = run_id, info_state = ERROR, info_result = None,
            reason = Some ''Error in Model.run(): model_run_id unknown''\<rparr>, self))"

definition status :: "string \<Rightarrow> Model \<Rightarrow> ModelRunInfo \<times> Model" where
  "status run_id self =
     (case map_of (model_run_dict self) run_id of
        Some r \<Rightarrow>
          (let r1 = r\<lparr>state := SUCCEEDED\<rparr>
           in (\<lparr>model_run_id = run_id, info_state = state r1, info_result = None,
                reason = None\<rparr>,
               self\<lparr>model_run_dict := AList.update run_id r1 (model_run_dict self)\<rparr>))
      | None \<Rightarrow>
          (\<lparr>model_run_id = run_id, info_state = ERROR, info_result = None,
            reason = Some ''Error in Model.status(): model_run_id unknown''\<rparr>, self))"

definition results :: "string \<Rightarrow> Model \<Rightarrow> ModelRunInfo \<times> Model" where
  "results run_id self =
     (case map_of (model_run_dict self) run_id of
        Some r \<Rightarrow>
          (\<lparr>model_run_id = run_id, info_state = state r, info_result = result r,
            reason = None\<rparr>, self)
      | None \<Rightarrow>
          (\<lparr>model_run_id = run_id, info_state = ERROR, info_result = None,
            reason = Some ''Error in Model.results(): model_run_id unknown''\<rparr>, self))"

text \<open>
  The loop of \<^verbatim>\<open>remove\<close> over \<^verbatim>\<open>self.model_run_dict.values()\<close>. At the first record
  in state \<^verbatim>\<open>PENDING\<close> the source evaluates the comparison
  \<^verbatim>\<open>m.state == ModelState.ACCEPTED\<close>, drops its value, and breaks.
\<close>

fun accept_first_pending :: "(string \<times> ModelRun) list \<Rightarrow> (string \<times> ModelRun) list" where
  "accept_first_pending [] = []"
| "accept_first_pending ((k, m) # rest) =
     (if state m = PENDING then
        (let compared = (state m = ACCEPTED) in (k, m) # rest)
      else (k, m) # accept_first_pending rest)"

definition remove :: "string \<Rightarrow> Model \<Rightarrow> ModelRunInfo \<times> Model" where
  "remove run_id self =
     (case map_of (model_run_dict self) run_id of
        Some r \<Rightarrow>
          (let d = AList.delete run_id (model_run_dict self);
               d1 = (if length d > 0 then accept_first_pending d else d)
           in (\<lparr>model_run_id = run_id, info_state = UNKNOWN, info_result = None,
                reason = None\<rparr>,
               self\<lparr>model_run_dict := d1\<rparr>))
      | None \<Rightarrow>
          (\<lparr>model_run_id = run_id, info_state = ERROR, info_result = None,
            reason = Some ''Error in Model.remove(): model_run_id unknown''\<rparr>, self))"

section \<open>Sequences of calls\<close>

text \<open>
  One call on the model. \<open>Request u\<close> is a call of \<^verbatim>\<open>request\<close> in which
  \<^verbatim>\<open>str(uuid4())\<close> is \<open>u\<close>.
\<close>

datatype operation =
  Request string
| Initialize string "OperaAdapterConfig option"
| StoreResult string pyval
| Run string
| Status string
| Results string
| Remove string

fun exec ::
  "(pyval \<Rightarrow> pyval) \<Rightarrow> operation \<Rightarrow> Model \<Rightarrow> (pyerror + ModelRunInfo) \<times> Model" where
  "exec pr (Request u) self = (let (i, s) = request u self in (Inr i, s))"
| "exec pr (Initialize k cfg) self = (let (i, s) = initialize k cfg self in (Inr i, s))"
| "exec pr (StoreResult k raw) self = store_result pr k raw self"
| "exec pr (Run k) self = (let (i, s) = run k self in (Inr i, s))"
| "exec pr (Status k) self = (let (i, s) = status k self in (Inr i, s))"
| "exec pr (Results k) self = (let (i, s) = results k self in (Inr i, s))"
| "exec pr (Remove k) self = (let (i, s) = remove k self in (Inr i, s))"

text \<open>
  A sequence of calls: the model object lives on after a call that raised, so the next
  call starts from the state the exception left.
\<close>

fun exec_all ::
  "(pyval \<Rightarrow> pyval) \<Rightarrow> operation list \<Rightarrow> Model \<Rightarrow> (pyerror + ModelRunInfo) list \<times> Model" where
  "exec_all pr [] self = ([], self)"
| "exec_all pr (c # cs) self =
     (let (out, s1) = exec pr c self;
          (outs, s2) = exec_all pr cs s1
      in (out # outs, s2))"

fun final_state ::
  "(pyval \<Rightarrow> pyval) \<Rightarrow> operation list \<Rightarrow> Model \<Rightarrow> Model" where
  "final_state pr [] self = self"
| "final_state pr (c # cs) self = final_state pr cs (snd (exec pr c self))"

text \<open>The id a call takes, if it takes one, and the uuids drawn by the requests of a sequence.\<close>

fun op_id :: "operation \<Rightarrow> string option" where
  "op_id (Request u) = None"
| "op_id (Initialize k cfg) = Some k"
| "op_id (StoreResult k raw) = Some k"
| "op_id (Run k) = Some k"
| "op_id (Status k) = Some k"
| "op_id (Results k) = Some k"
| "op_id (Remove k) = Some k"

fun drawn :: "operation list \<Rightarrow> string list" where
  "drawn [] = []"
| "drawn (Request u # cs) = u # drawn cs"
| "drawn (c # cs) = drawn cs"

text \<open>The name of the method a call invokes, as it appears in the error messages.\<close>

fun method_name :: "operation \<Rightarrow> string" where
  "method_name (Request u) = ''request''"
| "method_name (Initialize k cfg) = ''initialize''"
| "method_name (StoreResult k raw) = ''store_result''"
| "method_name (Run k) = ''run''"
| "method_name (Status k) = ''status''"
| "method_name (Results k) = ''results''"
| "method_name (Remove k) = ''remove''"


section \<open>Concrete models used in the examples\<close>

text \<open>
  A freshly created record in a given state, a configuration that names only an output
  path, and a model without object store and with an empty disk.
\<close>

definition run_in :: "ModelState \<Rightarrow> ModelRun" where
  "run_in st = \<lparr>state = st, config = None, result = None\<rparr>"

definition out_config :: "string \<Rightarrow> OperaAdapterConfig" where
  "out_config p = \<lparr>input_esdl_file_path_1 = None, input_esdl_file_path_2 = None,
                   output_esdl_file_path = Some p, base_path = None\<rparr>"

definition local_model :: "(string \<times> ModelRun) list \<Rightarrow> Model" where
  "local_model d = \<lparr>model_run_dict = d, minio_client = None, disk = []\<rparr>"

section \<open>Auxiliary facts\<close>

text \<open>The scan of \<^verbatim>\<open>remove\<close> leaves the dictionary as it found it.\<close>

lemma accept_first_pending_same: "accept_first_pending d = d"
  by (induction d rule: accept_first_pending.induct) simp_all

lemma remove_present:
  "map_of (model_run_dict self) k = Some r \<Longrightarrow>
   remove k self =
     (\<lparr>model_run_id = k, info_state = UNKNOWN, info_result = None, reason = None\<rparr>,
      self\<lparr>model_run_dict := AList.delete k (model_run_dict self)\<rparr>)"
  by (simp add: remove_def accept_first_pending_same Let_def)

text \<open>
  What one call does to the state and the configuration stored under a key \<open>k\<close>.
  \<^verbatim>\<open>store_result\<close> touches neither.
\<close>

lemma store_result_lookup:
  "map_option state (map_of (model_run_dict (snd (store_result pr k raw self))) k')
     = map_option state (map_of (model_run_dict self) k')
   \<and> map_option config (map_of (model_run_dict (snd (store_result pr k raw self))) k')
     = map_option config (map_of (model_run_dict self) k')"
  by (simp add: store_result_def Let_def update_conv' split: option.splits sum.splits)

lemma exec_lookup_cases:
  "(map_option state (map_of (model_run_dict (snd (exec pr c self))) k)
        = map_option state (map_of (model_run_dict self) k)
      \<and> map_option config (map_of (model_run_dict (snd (exec pr c self))) k)
        = map_option config (map_of (model_run_dict self) k))
   \<or> (c = Request k \<and> map_of (model_run_dict (snd (exec pr c self))) k = Some (run_in ACCEPTED))
   \<or> (c = Remove k \<and> map_of (model_run_dict (snd (exec pr c self))) k = None)
   \<or> (\<exists>cfg. c = Initialize k cfg
         \<and> map_of (model_run_dict self) k \<noteq> None
         \<and> map_option state (map_of (model_run_dict (snd (exec pr c self))) k) = Some READY
         \<and> map_option config (map_of (model_run_dict (snd (exec pr c self))) k) = Some cfg)
   \<or> (c = Run k
         \<and> map_option state (map_of (model_run_dict self) k) = Some READY
         \<and> map_option state (map_of (model_run_dict (snd (exec pr c self))) k) = Some RUNNING
         \<and> map_option config (map_of (model_run_dict (snd (exec pr c self))) k)
           = map_option config (map_of (model_run_dict self) k))
   \<or> (c = Status k
         \<and> map_option state (map_of (model_run_dict (snd (exec pr c self))) k) = Some SUCCEEDED
         \<and> map_option config (map_of (model_run_dict (snd (exec pr c self))) k)
           = map_option config (map_of (model_run_dict self) k))"
proof (cases c)
  case (Request u)
  then show ?thesis by (simp add: request_def run_in_def update_conv')
next
  case (Initialize k' cfg)
  then show ?thesis
    by (cases "map_of (model_run_dict self) k'") (auto simp: initialize_def update_conv')
next
  case (StoreResult k' raw)
  then show ?thesis using store_result_lookup [of pr k' raw self k] by simp
next
  case (Run k')
  then show ?thesis
    by (cases "map_of (model_run_dict self) k'") (auto simp: run_def update_conv')
next
  case (Status k')
  then show ?thesis
    by (cases "map_of (model_run_dict self) k'") (auto simp: status_def update_conv')
next
  case (Results k')
  then show ?thesis
    by (cases "map_of (model_run_dict self) k'") (auto simp: results_def)
next
  case (Remove k')
  show ?thesis
  proof (cases "map_of (model_run_dict self) k'")
    case None
    with Remove show ?thesis by (simp add: remove_def)
  next
    case (Some r)
    with Remove show ?thesis by (auto simp: remove_present delete_conv')
  qed
qed

lemma exec_absent:
  assumes "map_of (model_run_dict self) k = None" and "c \<noteq> Request k"
  shows "map_of (model_run_dict (snd (exec pr c self))) k = None"
  using exec_lookup_cases [of pr c self k] assms by auto

text \<open>A key that is absent stays absent until a \<^verbatim>\<open>request\<close> draws it.\<close>

lemma drawn_Cons: "k \<notin> set (drawn (c # cs)) \<longleftrightarrow> c \<noteq> Request k \<and> k \<notin> set (drawn cs)"
  by (cases c) auto


text \<open>Every method that takes an id answers an unknown id in the same way.\<close>

lemma exec_unknown:
  assumes "op_id c = Some k" and "map_of (model_run_dict self) k = None"
  shows "exec pr c self =
           (Inr \<lparr>model_run_id = k, info_state = ERROR, info_result = None,
                 reason = Some (''Error in Model.'' @ method_name c @ ''(): model_run_id unknown'')\<rparr>,
            self)"
  using assms
  by (cases c)
     (simp_all add: initialize_def store_result_def run_def status_def results_def remove_def)

lemma exec_all_length: "length (fst (exec_all pr cs self)) = length cs"
  by (induction cs arbitrary: self) (simp_all add: split_beta Let_def)

lemma exec_all_Cons:
  "fst (exec_all pr (c # cs) self) =
     fst (exec pr c self) # fst (exec_all pr cs (snd (exec pr c self)))"
  by (simp add: split_beta Let_def)

lemma exec_all_final: "snd (exec_all pr cs self) = final_state pr cs self"
  by (induction cs arbitrary: self) (simp_all add: split_beta Let_def)

lemma absent_outcomes:
  "map_of (model_run_dict self) k = None \<Longrightarrow> k \<notin> set (drawn cs) \<Longrightarrow>
   j < length cs \<Longrightarrow> op_id (cs ! j) = Some k \<Longrightarrow>
   \<exists>i. fst (exec_all pr cs self) ! j = Inr i \<and> info_state i = ERROR"
proof (induction cs arbitrary: self j)
  case Nil
  then show ?case by simp
next
  case (Cons c cs)
  from Cons.prems(2) have fresh: "c \<noteq> Request k" "k \<notin> set (drawn cs)"
    by (simp_all add: drawn_Cons)
  show ?case
  proof (cases j)
    case 0
    with Cons.prems(4) have "op_id c = Some k" by simp
    from exec_unknown [OF this Cons.prems(1), of pr] 0 show ?thesis
      by (simp add: exec_all_Cons del: exec_all.simps)
  next
    case (Suc j')
    with Cons.prems have "j' < length cs" "op_id (cs ! j') = Some k" by simp_all
    from Cons.IH [OF exec_absent [OF Cons.prems(1) fresh(1)] fresh(2) this, of pr] Suc
    show ?thesis by (simp add: exec_all_Cons del: exec_all.simps)
  qed
qed




text \<open>
  If \<^verbatim>\<open>initialize\<close> is never given \<^verbatim>\<open>None\<close>, every record in state
  \<^verbatim>\<open>READY\<close> or \<^verbatim>\<open>RUNNING\<close> has a configuration.
\<close>

lemma exec_keeps_configured:
  assumes inv: "\<forall>k r. map_of (model_run_dict self) k = Some r \<longrightarrow>
                  state r = READY \<or> state r = RUNNING \<longrightarrow> config r \<noteq> None"
      and c: "\<forall>k. c \<noteq> Initialize k None"
      and r': "map_of (model_run_dict (snd (exec pr c self))) k = Some r'"
      and st: "state r' = READY \<or> state r' = RUNNING"
  shows "config r' \<noteq> None"
  using exec_lookup_cases [of pr c self k] inv c r' st
  by (auto simp: run_in_def map_option_case split: option.splits)

lemma final_state_keeps_configured:
  "\<forall>k r. map_of (model_run_dict self) k = Some r \<longrightarrow>
       state r = READY \<or> state r = RUNNING \<longrightarrow> config r \<noteq> None \<Longrightarrow>
   \<forall>k. Initialize k None \<notin> set cs \<Longrightarrow>
   map_of (model_run_dict (final_state pr cs self)) k = Some r \<Longrightarrow>
   state r = READY \<or> state r = RUNNING \<Longrightarrow> config r \<noteq> None"
proof (induction cs arbitrary: self)
  case Nil
  then show ?case by auto
next
  case (Cons c cs)
  have "\<forall>k r. map_of (model_run_dict (snd (exec pr c self))) k = Some r \<longrightarrow>
          state r = READY \<or> state r = RUNNING \<longrightarrow> config r \<noteq> None"
    using exec_keeps_configured [OF Cons.prems(1), of c pr] Cons.prems(2) by auto
  from Cons.IH [OF this] Cons.prems(2,3,4) show ?case by simp
qed

lemma exec_config_frame:
  assumes "\<forall>k cfg. c \<noteq> Initialize k cfg" and "c \<noteq> Request k'"
      and "map_of (model_run_dict self) k' = Some r"
      and "map_of (model_run_dict (snd (exec pr c self))) k' = Some r'"
  shows "config r' = config r"
  using exec_lookup_cases [of pr c self k'] assms by auto

section \<open>The claims\<close>

subsection \<open>\<^verbatim>\<open>run\<close>\<close>

text \<open>
  C1 (as amended). \<^verbatim>\<open>run(id)\<close> returns state \<^verbatim>\<open>RUNNING\<close> if and only if the record
  for \<open>id\<close> exists and its state is \<^verbatim>\<open>READY\<close> or already \<^verbatim>\<open>RUNNING\<close>. If the
  record is \<^verbatim>\<open>READY\<close>, its state is set to \<^verbatim>\<open>RUNNING\<close> and the answer carries no
  reason. If the record exists and is not \<^verbatim>\<open>READY\<close>, the model is left as it is and
  the answer carries the unchanged state with the reason
  \<^verbatim>\<open>Error: Model is not in READY state\<close>.
\<close>

theorem run_running_iff:
  "(info_state (fst (run k self)) = RUNNING \<longleftrightarrow>
      (\<exists>r. map_of (model_run_dict self) k = Some r \<and> (state r = READY \<or> state r = RUNNING)))
   \<and> (\<forall>r. map_of (model_run_dict self) k = Some r \<and> state r = READY \<longrightarrow>
         run k self =
           (\<lparr>model_run_id = k, info_state = RUNNING, info_result = None, reason = None\<rparr>,
            self\<lparr>model_run_dict := AList.update k (r\<lparr>state := RUNNING\<rparr>) (model_run_dict self)\<rparr>))
   \<and> (\<forall>r. map_of (model_run_dict self) k = Some r \<and> state r \<noteq> READY \<longrightarrow>
         run k self =
           (\<lparr>model_run_id = k, info_state = state r, info_result = None,
             reason = Some ''Error: Model is not in READY state''\<rparr>, self))"
  by (auto simp: run_def split: option.splits)

text \<open>
  The equivalence with \<^verbatim>\<open>READY\<close> alone fails: for a record that is already
  \<^verbatim>\<open>RUNNING\<close> the rejected call reports the current state, which is \<^verbatim>\<open>RUNNING\<close>.
\<close>

theorem run_reports_running_unready:
  "map_of (model_run_dict (local_model [(''r1'', run_in RUNNING)])) ''r1'' = Some (run_in RUNNING)
   \<and> state (run_in RUNNING) \<noteq> READY
   \<and> info_state (fst (run ''r1'' (local_model [(''r1'', run_in RUNNING)]))) = RUNNING"
  by (simp add: run_def local_model_def run_in_def)

theorem run_running_iff_witness:
  "map_of (model_run_dict (local_model [(''r1'', run_in READY)])) ''r1'' = Some (run_in READY)
   \<and> state (run_in READY) = READY
   \<and> info_state (fst (run ''r1'' (local_model [(''r1'', run_in READY)]))) = RUNNING
   \<and> run ''r1'' (local_model [(''r1'', run_in READY)]) =
       (\<lparr>model_run_id = ''r1'', info_state = RUNNING, info_result = None, reason = None\<rparr>,
        local_model [(''r1'', run_in RUNNING)])"
  using run_running_iff [of "''r1''" "local_model [(''r1'', run_in READY)]"]
  by (simp add: local_model_def run_in_def)

subsection \<open>\<^verbatim>\<open>store_result\<close>\<close>

text \<open>
  C2. The scenario of the specification, run on the code: after \<^verbatim>\<open>request\<close>,
  \<^verbatim>\<open>initialize\<close> and \<^verbatim>\<open>run\<close>, the call of \<^verbatim>\<open>store_result\<close> writes the file and
  answers \<^verbatim>\<open>SUCCEEDED\<close>, but the stored record stays \<^verbatim>\<open>RUNNING\<close>, and that is what
  the following \<^verbatim>\<open>results\<close> reports.
\<close>

theorem store_result_keeps_state:
  "exec_all (\<lambda>raw. raw)
     [Request ''r1'', Initialize ''r1'' (Some (out_config ''file:///tmp/out.esdl'')),
      Run ''r1'', StoreResult ''r1'' (PStr ''<xml/>''), Results ''r1'']
     (Model_init None [])
   = ([Inr \<lparr>model_run_id = ''r1'', info_state = ACCEPTED, info_result = None, reason = None\<rparr>,
       Inr \<lparr>model_run_id = ''r1'', info_state = READY, info_result = None, reason = None\<rparr>,
       Inr \<lparr>model_run_id = ''r1'', info_state = RUNNING, info_result = None, reason = None\<rparr>,
       Inr \<lparr>model_run_id = ''r1'', info_state = SUCCEEDED, info_result = None, reason = None\<rparr>,
       Inr \<lparr>model_run_id = ''r1'', info_state = RUNNING,
            info_result = Some [(''path'', PStr ''file:///tmp/out.esdl'')], reason = None\<rparr>],
      \<lparr>model_run_dict =
         [(''r1'', \<lparr>state = RUNNING, config = Some (out_config ''file:///tmp/out.esdl''),
                   result = Some [(''path'', PStr ''file:///tmp/out.esdl'')]\<rparr>)],
       minio_client = None,
       disk = [(''/tmp/out.esdl'', ''<xml/>'')]\<rparr>)"
  by (simp add: Model_init_def request_def initialize_def run_def store_result_def results_def
        truthy_def str_content_def out_config_def)

text \<open>
  C3. With a processor that returns \<^verbatim>\<open>None\<close>, \<^verbatim>\<open>store_result\<close> writes nothing to
  storage and stores the processed value under \<^verbatim>\<open>"result"\<close>, that is
  \<^verbatim>\<open>{"result": None}\<close>, where the claim has the raw result \<^verbatim>\<open>"<xml/>"\<close>.
\<close>

theorem store_result_falsy_stores_processed:
  "store_result (\<lambda>raw. PNone) ''r1'' (PStr ''<xml/>'') (local_model [(''r1'', run_in RUNNING)])
   = (Inr \<lparr>model_run_id = ''r1'', info_state = SUCCEEDED, info_result = None, reason = None\<rparr>,
      local_model [(''r1'', \<lparr>state = RUNNING, config = None,
                              result = Some [(''result'', PNone)]\<rparr>)])"
  by (simp add: store_result_def local_model_def run_in_def truthy_def)

text \<open>
  C9. Without an object store, with a processor that returns a non-empty artifact and a
  configured output path that does not begin with \<^verbatim>\<open>file://\<close>, \<^verbatim>\<open>store_result\<close>
  raises \<^verbatim>\<open>IOError\<close> instead of returning, and the model, hence the record's state and
  result, is as before the call.
\<close>

theorem store_result_unsupported_path:
  assumes "minio_client self = None"
      and "map_of (model_run_dict self) k = Some r"
      and "config r = Some c"
      and "output_esdl_file_path c = Some p"
      and "truthy (pr raw)"
      and "take 7 p \<noteq> ''file://''"
  shows "store_result pr k raw self
           = (Inl (IOError (''Don't know how to write file '' @ p)), self)"
  using assms by (simp add: store_result_def)

theorem store_result_unsupported_path_witness:
  "minio_client (local_model [(''r1'', \<lparr>state = RUNNING,
       config = Some (out_config ''s3://bucket/out.esdl''), result = None\<rparr>)]) = None
   \<and> truthy (PStr ''<xml/>'')
   \<and> take 7 ''s3://bucket/out.esdl'' \<noteq> ''file://''
   \<and> store_result (\<lambda>raw. raw) ''r1'' (PStr ''<xml/>'')
        (local_model [(''r1'', \<lparr>state = RUNNING,
           config = Some (out_config ''s3://bucket/out.esdl''), result = None\<rparr>)])
       = (Inl (IOError ''Don't know how to write file s3://bucket/out.esdl''),
          local_model [(''r1'', \<lparr>state = RUNNING,
            config = Some (out_config ''s3://bucket/out.esdl''), result = None\<rparr>)])"
  using store_result_unsupported_path [of
      "local_model [(''r1'', \<lparr>state = RUNNING,
           config = Some (out_config ''s3://bucket/out.esdl''), result = None\<rparr>)]"
      "''r1''"
      "\<lparr>state = RUNNING, config = Some (out_config ''s3://bucket/out.esdl''), result = None\<rparr>"
      "out_config ''s3://bucket/out.esdl''" "''s3://bucket/out.esdl''" "\<lambda>raw. raw" "PStr ''<xml/>''"]
  by (simp add: local_model_def out_config_def truthy_def)

subsection \<open>\<^verbatim>\<open>remove\<close>\<close>

text \<open>
  C4. Removing a run while another one is \<^verbatim>\<open>PENDING\<close>: the record is deleted, and the
  pending record is still \<^verbatim>\<open>PENDING\<close> afterwards, where the claim has it
  \<^verbatim>\<open>ACCEPTED\<close>.
\<close>

theorem remove_pending_stays:
  "remove ''a'' (local_model [(''a'', run_in ACCEPTED), (''b'', run_in PENDING)])
   = (\<lparr>model_run_id = ''a'', info_state = UNKNOWN, info_result = None, reason = None\<rparr>,
      local_model [(''b'', run_in PENDING)])"
  by (simp add: remove_def local_model_def run_in_def)

text \<open>
  C10. For an id in the dictionary, \<^verbatim>\<open>remove(id)\<close> changes the model only by deleting
  the entry of \<open>id\<close>: every other id has the record it had, with the same state, config
  and result, whether or not records in state \<^verbatim>\<open>PENDING\<close> exist.
\<close>

theorem remove_frame:
  assumes "map_of (model_run_dict self) k = Some r"
  shows "snd (remove k self) = self\<lparr>model_run_dict := AList.delete k (model_run_dict self)\<rparr>
         \<and> (\<forall>k'. k' \<noteq> k \<longrightarrow>
               map_of (model_run_dict (snd (remove k self))) k' = map_of (model_run_dict self) k')"
  using assms by (simp add: remove_present delete_conv')

theorem remove_frame_witness:
  "map_of (model_run_dict (local_model [(''a'', run_in ACCEPTED), (''b'', run_in PENDING)])) ''a''
     = Some (run_in ACCEPTED)
   \<and> ''b'' \<noteq> ''a''
   \<and> map_of (model_run_dict
        (snd (remove ''a'' (local_model [(''a'', run_in ACCEPTED), (''b'', run_in PENDING)])))) ''b''
     = Some (run_in PENDING)"
  using remove_frame [of "local_model [(''a'', run_in ACCEPTED), (''b'', run_in PENDING)]"
      "''a''" "run_in ACCEPTED"]
  by (simp add: local_model_def)

text \<open>
  C8. For an id in the dictionary, \<^verbatim>\<open>remove(id)\<close> deletes the record and answers
  \<^verbatim>\<open>UNKNOWN\<close>. In every sequence of calls that follows, in which \<^verbatim>\<open>uuid4\<close> does not
  draw the removed id again, each call that takes this id answers \<^verbatim>\<open>ERROR\<close>.
\<close>

theorem remove_then_unknown:
  assumes "map_of (model_run_dict self) k = Some r" and "k \<notin> set (drawn cs)"
  shows "fst (remove k self)
           = \<lparr>model_run_id = k, info_state = UNKNOWN, info_result = None, reason = None\<rparr>
         \<and> map_of (model_run_dict (snd (remove k self))) k = None
         \<and> (\<forall>j < length cs. op_id (cs ! j) = Some k \<longrightarrow>
               (\<exists>i. fst (exec_all pr cs (snd (remove k self))) ! j = Inr i
                    \<and> info_state i = ERROR))"
proof -
  have gone: "map_of (model_run_dict (snd (remove k self))) k = None"
    using assms(1) by (simp add: remove_present delete_conv')
  from absent_outcomes [OF gone assms(2)] gone assms(1) show ?thesis
    by (simp add: remove_present)
qed

theorem remove_then_unknown_witness:
  "map_of (model_run_dict (local_model [(''a'', run_in READY)])) ''a'' = Some (run_in READY)
   \<and> ''a'' \<notin> set (drawn [Run ''a'', Request ''b'', Results ''a''])
   \<and> (\<exists>i. fst (exec_all (\<lambda>raw. raw) [Run ''a'', Request ''b'', Results ''a'']
                 (snd (remove ''a'' (local_model [(''a'', run_in READY)])))) ! 2 = Inr i
           \<and> info_state i = ERROR)"
  using remove_then_unknown [of "local_model [(''a'', run_in READY)]" "''a''" "run_in READY"
      "[Run ''a'', Request ''b'', Results ''a'']" "\<lambda>raw. raw"]
  by (simp add: local_model_def)

subsection \<open>Unknown ids\<close>

text \<open>
  C7. Each of \<^verbatim>\<open>initialize\<close>, \<^verbatim>\<open>run\<close>, \<^verbatim>\<open>status\<close>, \<^verbatim>\<open>store_result\<close>,
  \<^verbatim>\<open>results\<close> and \<^verbatim>\<open>remove\<close>, called with an id that is not in the dictionary,
  returns (it does not raise) a \<^verbatim>\<open>ModelRunInfo\<close> with state \<^verbatim>\<open>ERROR\<close> and a
  non-empty reason that names the method, and leaves the whole model unchanged.
\<close>

theorem unknown_id_error:
  assumes "op_id c = Some k" and "map_of (model_run_dict self) k = None"
  shows "\<exists>i. exec pr c self = (Inr i, self) \<and> model_run_id i = k \<and> info_state i = ERROR
           \<and> reason i = Some (''Error in Model.'' @ method_name c @ ''(): model_run_id unknown'')
           \<and> reason i \<noteq> None \<and> reason i \<noteq> Some []"
  using exec_unknown [OF assms, of pr] by simp

theorem unknown_id_error_witness:
  "op_id (Run ''nonexistent'') = Some ''nonexistent''
   \<and> map_of (model_run_dict (local_model [(''r1'', run_in READY)])) ''nonexistent'' = None
   \<and> exec (\<lambda>raw. raw) (Run ''nonexistent'') (local_model [(''r1'', run_in READY)])
       = (Inr \<lparr>model_run_id = ''nonexistent'', info_state = ERROR, info_result = None,
               reason = Some ''Error in Model.run(): model_run_id unknown''\<rparr>,
          local_model [(''r1'', run_in READY)])"
  using unknown_id_error [of "Run ''nonexistent''" "''nonexistent''"
      "local_model [(''r1'', run_in READY)]" "\<lambda>raw. raw"]
  by (simp add: local_model_def run_def)

subsection \<open>\<^verbatim>\<open>request\<close>\<close>







subsection \<open>The configuration of a record\<close>

text \<open>
  C5 (as amended). A call other than \<^verbatim>\<open>initialize\<close> leaves the config of every record
  that it neither creates nor deletes as it was; \<^verbatim>\<open>run\<close> moves a \<^verbatim>\<open>READY\<close> record to
  \<^verbatim>\<open>RUNNING\<close> whatever its config is; and provided no call of \<^verbatim>\<open>initialize\<close> passes
  \<^verbatim>\<open>None\<close>, no sequence of calls on a new model yields a record in state
  \<^verbatim>\<open>RUNNING\<close> whose config is \<^verbatim>\<open>None\<close>.
\<close>

theorem config_written_by_initialize:
  "((\<forall>k cfg. c \<noteq> Initialize k cfg) \<and> c \<noteq> Request k'
      \<and> map_of (model_run_dict self) k' = Some r
      \<and> map_of (model_run_dict (snd (exec pr c self))) k' = Some r'
     \<longrightarrow> config r' = config r)
   \<and> (map_of (model_run_dict self) k' = Some r \<and> state r = READY
     \<longrightarrow> map_of (model_run_dict (snd (run k' self))) k' = Some (r\<lparr>state := RUNNING\<rparr>))
   \<and> ((\<forall>k. Initialize k None \<notin> set cs)
      \<and> map_of (model_run_dict (final_state pr cs (Model_init mc files))) k' = Some q
      \<and> state q = RUNNING
     \<longrightarrow> config q \<noteq> None)"
proof (intro conjI impI)
  assume "(\<forall>k cfg. c \<noteq> Initialize k cfg) \<and> c \<noteq> Request k'
      \<and> map_of (model_run_dict self) k' = Some r
      \<and> map_of (model_run_dict (snd (exec pr c self))) k' = Some r'"
  then show "config r' = config r" using exec_config_frame [of c k' self r pr r'] by blast
next
  assume "map_of (model_run_dict self) k' = Some r \<and> state r = READY"
  then show "map_of (model_run_dict (snd (run k' self))) k' = Some (r\<lparr>state := RUNNING\<rparr>)"
    by (simp add: run_def update_conv')
next
  assume a: "(\<forall>k. Initialize k None \<notin> set cs)
      \<and> map_of (model_run_dict (final_state pr cs (Model_init mc files))) k' = Some q
      \<and> state q = RUNNING"
  have "\<forall>k r. map_of (model_run_dict (Model_init mc files)) k = Some r \<longrightarrow>
          state r = READY \<or> state r = RUNNING \<longrightarrow> config r \<noteq> None"
    by (simp add: Model_init_def)
  from final_state_keeps_configured [OF this, of cs pr k' q] a show "config q \<noteq> None"
    by blast
qed

text \<open>
  Without the proviso the invariant fails: \<^verbatim>\<open>initialize\<close> accepts \<^verbatim>\<open>None\<close> (it is
  the default of its parameter), and \<^verbatim>\<open>run\<close> does not look at the config.
\<close>

theorem running_without_config:
  "map_of (model_run_dict
     (final_state (\<lambda>raw. raw) [Request ''r1'', Initialize ''r1'' None, Run ''r1'']
        (Model_init None []))) ''r1''
   = Some \<lparr>state = RUNNING, config = None, result = None\<rparr>"
  by (simp add: Model_init_def request_def initialize_def run_def)

theorem config_written_by_initialize_witness:
  "map_of (model_run_dict
     (final_state (\<lambda>raw. raw)
        [Request ''r1'', Initialize ''r1'' (Some (out_config ''file:///tmp/out.esdl'')), Run ''r1'']
        (Model_init None []))) ''r1''
     = Some \<lparr>state = RUNNING, config = Some (out_config ''file:///tmp/out.esdl''), result = None\<rparr>
   \<and> config \<lparr>state = RUNNING, config = Some (out_config ''file:///tmp/out.esdl''), result = None\<rparr>
       \<noteq> None
   \<and> map_of (model_run_dict (snd (exec (\<lambda>raw. raw) (Status ''r1'')
        (local_model [(''r1'', \<lparr>state = RUNNING,
           config = Some (out_config ''file:///tmp/out.esdl''), result = None\<rparr>)])))) ''r1''
     = Some \<lparr>state = SUCCEEDED, config = Some (out_config ''file:///tmp/out.esdl''), result = None\<rparr>
   \<and> map_of (model_run_dict (snd (run ''r1'' (local_model [(''r1'', run_in READY)])))) ''r1''
     = Some (run_in RUNNING)"
  using config_written_by_initialize [of "Status ''r1''" "''r1''"
      "local_model [(''r1'', \<lparr>state = RUNNING,
           config = Some (out_config ''file:///tmp/out.esdl''), result = None\<rparr>)]"
      "\<lparr>state = RUNNING, config = Some (out_config ''file:///tmp/out.esdl''), result = None\<rparr>"
      "\<lambda>raw. raw"
      "\<lparr>state = SUCCEEDED, config = Some (out_config ''file:///tmp/out.esdl''), result = None\<rparr>"
      "[Request ''r1'', Initialize ''r1'' (Some (out_config ''file:///tmp/out.esdl'')), Run ''r1'']"
      None "[]"
      "\<lparr>state = RUNNING, config = Some (out_config ''file:///tmp/out.esdl''), result = None\<rparr>"]
  by (simp add: Model_init_def local_model_def request_def initialize_def run_def status_def
        run_in_def)

end
